theory Spec2Isabelle
  imports Main
begin

section \<open>Data model of \<open>main.py\<close>\<close>

text \<open>
  \<open>DatabaseManager\<close> keeps its whole state in one SQLite file. The model is the
  content of that file: the five tables created by \<open>setup_database\<close> (rows in insertion
  order), the \<open>sqlite_sequence\<close> counters of the \<open>AUTOINCREMENT\<close> keys, the set of
  installed triggers, the column list of \<open>users\<close> and the set of views.

  Modelling decisions:
  \<^item> \<open>price\<close> and \<open>total_amount\<close> are \<open>REAL\<close> columns, Python floats. Their type is the
    type variable \<open>'p\<close>; the code's \<open>total = 0\<close> and \<open>total += x\<close> are \<open>0\<close> and \<open>+\<close> of
    the syntactic classes \<open>zero\<close> and \<open>plus\<close> (no algebraic law is assumed), and the
    product \<open>price * quantity\<close> is a parameter \<open>mul\<close>.
  \<^item> \<open>INTEGER\<close> values are \<open>int\<close>; they are taken to stay inside SQLite's 64-bit range.
  \<^item> Columns filled from the wall clock (\<open>created_at\<close>, \<open>order_date\<close>, \<open>timestamp\<close>) are
    left out.
  \<^item> The connection never executes \<open>PRAGMA foreign_keys = ON\<close>, so SQLite does not
    enforce the \<open>FOREIGN KEY\<close> clauses and \<open>ON DELETE CASCADE\<close> never acts.
\<close>

datatype user_status = Active | Inactive | Suspended

datatype order_status = Pending | Completed | Cancelled

datatype trigger = Audit_user_changes | Update_product_stock | Prevent_order_deletion

datatype error =
    ValueError string
  | TypeError
  | IndexError
  | OperationalError string
  | IntegrityError string

record user_row =
  u_id :: int
  u_username :: string
  u_email :: string
  u_password_hash :: string
  u_status :: user_status

record 'p product_row =
  p_id :: int
  p_name :: string
  p_category :: string
  p_price :: 'p
  p_stock :: int

record 'p order_row =
  o_id :: int
  o_user_id :: int
  o_total_amount :: 'p
  o_status :: order_status

record 'p order_item_row =
  oi_id :: int
  oi_order_id :: int
  oi_product_id :: int
  oi_quantity :: int
  oi_price :: 'p

text \<open>
  The \<open>details\<close> column of \<open>audit_log\<close> holds JSON text: \<open>{"order_id": .., "total": ..}\<close>
  written by \<open>process_order_transaction\<close>, \<open>{"old_status": .., "new_status": ..}\<close> written
  by the trigger \<open>audit_user_changes\<close>. The model keeps the object, not its text.
\<close>

datatype 'p details =
    Order_details int 'p
  | Status_details user_status user_status

record 'p audit_row =
  al_id :: int
  al_table_name :: string
  al_action :: string
  al_user_id :: int
  al_details :: "'p details"

record 'p db =
  users :: "user_row list"
  products :: "'p product_row list"
  orders :: "'p order_row list"
  order_items :: "'p order_item_row list"
  audit_log :: "'p audit_row list"
  seq_users :: int
  seq_products :: int
  seq_orders :: int
  seq_order_items :: int
  seq_audit_log :: int
  triggers :: "trigger set"
  users_columns :: "string list"
  views :: "string set"

text \<open>A line item of an order request: the dict \<open>{'product_id': .., 'quantity': ..}\<close>.\<close>

record item =
  product_id :: int
  quantity :: int

section \<open>The engine's primitives\<close>

text \<open>
  \<open>INTEGER PRIMARY KEY AUTOINCREMENT\<close>: the new rowid is one more than the largest of
  the rowids in the table and the counter kept in \<open>sqlite_sequence\<close>; the counter
  survives \<open>DELETE\<close>, so a rowid is never used twice.
\<close>

definition next_rowid :: "int \<Rightarrow> int list \<Rightarrow> int" where
  "next_rowid seq ids = foldr max ids seq + 1"

text \<open>Decimal text of an integer, for the f-strings.\<close>

fun str_nat :: "nat \<Rightarrow> string" where
  "str_nat n =
     (if n < 10 then [char_of (48 + n)]
      else str_nat (n div 10) @ [char_of (48 + n mod 10)])"

declare str_nat.simps [simp del]

definition str_int :: "int \<Rightarrow> string" where
  "str_int i = (if i < 0 then CHR ''-'' # str_nat (nat (- i)) else str_nat (nat i))"

text \<open>\<open>SELECT .. FROM products WHERE id = ?\<close> followed by \<open>fetchone()\<close>.\<close>

definition fetch_product :: "'p product_row list \<Rightarrow> int \<Rightarrow> 'p product_row option" where
  "fetch_product ps pid = find (\<lambda>p. p_id p = pid) ps"

text \<open>\<open>UPDATE products SET stock = stock - ? WHERE id = ?\<close>\<close>

definition update_stock :: "int \<Rightarrow> int \<Rightarrow> 'p db \<Rightarrow> 'p db" where
  "update_stock q pid d =
     d\<lparr>products :=
         map (\<lambda>p. if p_id p = pid then p\<lparr>p_stock := p_stock p - q\<rparr> else p) (products d)\<rparr>"

text \<open>
  The body of the trigger \<open>update_product_stock\<close>:
  \<open>UPDATE products SET stock = stock - NEW.quantity
    WHERE id = NEW.product_id AND stock >= NEW.quantity\<close>.
\<close>

definition update_product_stock :: "'p order_item_row \<Rightarrow> 'p db \<Rightarrow> 'p db" where
  "update_product_stock new d =
     d\<lparr>products :=
         map (\<lambda>p. if p_id p = oi_product_id new \<and> p_stock p \<ge> oi_quantity new
                   then p\<lparr>p_stock := p_stock p - oi_quantity new\<rparr> else p) (products d)\<rparr>"

text \<open>
  \<open>INSERT INTO order_items (order_id, product_id, quantity, price) VALUES (?, ?, ?, ?)\<close>;
  the trigger \<open>update_product_stock\<close> runs \<open>AFTER INSERT ON order_items\<close> when it is
  installed.
\<close>

definition insert_order_item :: "int \<Rightarrow> int \<Rightarrow> int \<Rightarrow> 'p \<Rightarrow> 'p db \<Rightarrow> 'p db" where
  "insert_order_item oid pid q pr d =
     (let rid = next_rowid (seq_order_items d) (map oi_id (order_items d));
          new = \<lparr>oi_id = rid, oi_order_id = oid, oi_product_id = pid,
                 oi_quantity = q, oi_price = pr\<rparr>;
          d' = d\<lparr>order_items := order_items d @ [new], seq_order_items := rid\<rparr>
      in if Update_product_stock \<in> triggers d' then update_product_stock new d' else d')"

text \<open>
  \<open>INSERT INTO orders (user_id, total_amount, status) VALUES (?, ?, ?)\<close>, returning
  \<open>cursor.lastrowid\<close> with the new state.
\<close>

definition insert_order :: "int \<Rightarrow> 'p \<Rightarrow> order_status \<Rightarrow> 'p db \<Rightarrow> int \<times> 'p db" where
  "insert_order uid total_amount st d =
     (let rid = next_rowid (seq_orders d) (map o_id (orders d))
      in (rid, d\<lparr>orders := orders d @
                    [\<lparr>o_id = rid, o_user_id = uid, o_total_amount = total_amount, o_status = st\<rparr>],
                 seq_orders := rid\<rparr>))"

text \<open>\<open>INSERT INTO audit_log (table_name, action, user_id, details) VALUES (?, ?, ?, ?)\<close>\<close>

definition insert_audit_log :: "string \<Rightarrow> string \<Rightarrow> int \<Rightarrow> 'p details \<Rightarrow> 'p db \<Rightarrow> 'p db" where
  "insert_audit_log tbl act uid det d =
     (let rid = next_rowid (seq_audit_log d) (map al_id (audit_log d))
      in d\<lparr>audit_log := audit_log d @
               [\<lparr>al_id = rid, al_table_name = tbl, al_action = act, al_user_id = uid,
                 al_details = det\<rparr>],
            seq_audit_log := rid\<rparr>)"

section \<open>\<open>process_order_transaction\<close>\<close>

text \<open>
  The first loop (\<open># Calculate total\<close>): every line item is checked against the products
  as they are when the call starts; nothing is written.
\<close>

fun calculate_total ::
  "('p \<Rightarrow> int \<Rightarrow> 'p) \<Rightarrow> 'p product_row list \<Rightarrow> item list \<Rightarrow> 'p::plus \<Rightarrow> error + 'p" where
  "calculate_total mul ps [] total_amount = Inr total_amount"
| "calculate_total mul ps (it # its) total_amount =
     (case fetch_product ps (product_id it) of
        None \<Rightarrow> Inl (ValueError (''Insufficient stock for product '' @ str_int (product_id it)))
      | Some product \<Rightarrow>
          if p_stock product < quantity it
          then Inl (ValueError (''Insufficient stock for product '' @ str_int (product_id it)))
          else calculate_total mul ps its
                 (total_amount + mul (p_price product) (quantity it)))"

text \<open>
  The second loop (\<open># Add items and update stock\<close>). \<open>cursor.fetchone()[0]\<close> raises
  \<open>TypeError\<close> when no row comes back.
\<close>

fun add_items :: "int \<Rightarrow> item list \<Rightarrow> 'p db \<Rightarrow> error + 'p db" where
  "add_items order_id [] d = Inr d"
| "add_items order_id (it # its) d =
     (case fetch_product (products d) (product_id it) of
        None \<Rightarrow> Inl TypeError
      | Some product \<Rightarrow>
          add_items order_id its
            (update_stock (quantity it) (product_id it)
               (insert_order_item order_id (product_id it) (quantity it) (p_price product) d)))"

text \<open>The statements between \<open>BEGIN TRANSACTION\<close> and \<open>conn.commit()\<close>.\<close>

definition transaction_body ::
  "('p \<Rightarrow> int \<Rightarrow> 'p) \<Rightarrow> int \<Rightarrow> item list \<Rightarrow> 'p db \<Rightarrow> error + 'p::{zero,plus} db" where
  "transaction_body mul user_id items d =
     (case calculate_total mul (products d) items 0 of
        Inl e \<Rightarrow> Inl e
      | Inr total_amount \<Rightarrow>
          (case insert_order user_id total_amount Pending d of
             (order_id, d1) \<Rightarrow>
               (case add_items order_id items d1 of
                  Inl e \<Rightarrow> Inl e
                | Inr d2 \<Rightarrow>
                    Inr (insert_audit_log ''orders'' ''CREATE'' user_id
                           (Order_details order_id total_amount) d2))))"

text \<open>
  \<open>except Exception\<close>: \<open>conn.rollback()\<close> restores the state of the call's start and
  the result is \<open>False\<close>; otherwise the writes are committed and the result is \<open>True\<close>.
\<close>

definition process_order_transaction ::
  "('p \<Rightarrow> int \<Rightarrow> 'p) \<Rightarrow> int \<Rightarrow> item list \<Rightarrow> 'p db \<Rightarrow> bool \<times> 'p::{zero,plus} db" where
  "process_order_transaction mul user_id items d =
     (case transaction_body mul user_id items d of
        Inl e \<Rightarrow> (False, d)
      | Inr d' \<Rightarrow> (True, d'))"

section \<open>Randomness\<close>

text \<open>
  The module \<open>random\<close> is a collaborator from outside; its state is a tape of numbers
  and the position of the next unused one. Each primitive consumes one cell per draw.
\<close>

record rng =
  tape :: "nat \<Rightarrow> nat"
  pos :: nat

definition randbelow :: "nat \<Rightarrow> rng \<Rightarrow> nat \<times> rng" where
  "randbelow n g = (tape g (pos g) mod n, g\<lparr>pos := Suc (pos g)\<rparr>)"

text \<open>\<open>random.choice(seq)\<close> raises \<open>IndexError\<close> on an empty sequence.\<close>

definition choice :: "'a list \<Rightarrow> rng \<Rightarrow> error + ('a \<times> rng)" where
  "choice xs g =
     (if xs = [] then Inl IndexError
      else (case randbelow (length xs) g of (i, g') \<Rightarrow> Inr (xs ! i, g')))"

text \<open>\<open>random.randint(a, b)\<close>, for \<open>a \<le> b\<close> as in every call of the source.\<close>

definition randint :: "int \<Rightarrow> int \<Rightarrow> rng \<Rightarrow> int \<times> rng" where
  "randint a b g = (case randbelow (nat (b - a + 1)) g of (i, g') \<Rightarrow> (a + int i, g'))"

text \<open>\<open>round(random.uniform(10, 1000), 2)\<close>: \<open>price_of\<close> maps the cell to the float.\<close>

definition random_price :: "(nat \<Rightarrow> 'p) \<Rightarrow> rng \<Rightarrow> 'p \<times> rng" where
  "random_price price_of g = (price_of (tape g (pos g)), g\<lparr>pos := Suc (pos g)\<rparr>)"

text \<open>\<open>_random_string\<close>: \<open>''.join(random.choices(string.ascii_lowercase, k=length))\<close>\<close>

fun random_string :: "nat \<Rightarrow> rng \<Rightarrow> string \<times> rng" where
  "random_string 0 g = ([], g)"
| "random_string (Suc k) g =
     (case randbelow 26 g of (i, g1) \<Rightarrow>
        (case random_string k g1 of (s, g2) \<Rightarrow> (''abcdefghijklmnopqrstuvwxyz'' ! i # s, g2)))"

section \<open>\<open>hash_password\<close> and \<open>create_user_secure\<close>\<close>

text \<open>
  \<open>hashlib.sha256(password.encode()).hexdigest()\<close>: the digest is the library's, taken
  as the parameter \<open>sha256_hexdigest\<close>.
\<close>

definition hash_password :: "(string \<Rightarrow> string) \<Rightarrow> string \<Rightarrow> string" where
  "hash_password sha256_hexdigest password = sha256_hexdigest password"

text \<open>
  \<open>INSERT INTO users (username, email, password_hash, status) VALUES (?, ?, ?, ?)\<close>, with
  the \<open>UNIQUE\<close> constraints of \<open>username\<close> and \<open>email\<close>; returns \<open>cursor.lastrowid\<close>
  with the new state.
\<close>

definition insert_user ::
  "string \<Rightarrow> string \<Rightarrow> string \<Rightarrow> user_status \<Rightarrow> 'p db \<Rightarrow> error + (int \<times> 'p db)" where
  "insert_user username email password_hash status d =
     (if username \<in> u_username ` set (users d) then
        Inl (IntegrityError ''UNIQUE constraint failed: users.username'')
      else if email \<in> u_email ` set (users d) then
        Inl (IntegrityError ''UNIQUE constraint failed: users.email'')
      else
        (let rid = next_rowid (seq_users d) (map u_id (users d))
         in Inr (rid, d\<lparr>users := users d @
                          [\<lparr>u_id = rid, u_username = username, u_email = email,
                            u_password_hash = password_hash, u_status = status\<rparr>],
                        seq_users := rid\<rparr>)))"

text \<open>
  \<open>create_user_secure\<close>: the status is the column's default \<open>'active'\<close>. An exception
  reaches the caller before \<open>conn.commit()\<close>, and closing the connection drops the write.
\<close>

definition create_user_secure ::
  "(string \<Rightarrow> string) \<Rightarrow> string \<Rightarrow> string \<Rightarrow> string \<Rightarrow> 'p db \<Rightarrow> (error + int) \<times> 'p db" where
  "create_user_secure sha256_hexdigest username email password d =
     (case insert_user username email (hash_password sha256_hexdigest password) Active d of
        Inl e \<Rightarrow> (Inl e, d)
      | Inr (rid, d') \<Rightarrow> (Inr rid, d'))"

section \<open>\<open>create_triggers\<close> and the statements the triggers guard\<close>

text \<open>\<open>CREATE TRIGGER IF NOT EXISTS\<close>, three times, then \<open>conn.commit()\<close>.\<close>

definition create_triggers :: "'p db \<Rightarrow> 'p db" where
  "create_triggers d =
     d\<lparr>triggers :=
         insert Prevent_order_deletion
           (insert Update_product_stock (insert Audit_user_changes (triggers d)))\<rparr>"

text \<open>
  The condition of the trigger \<open>prevent_order_deletion\<close>:
  \<open>(SELECT COUNT(*) FROM order_items WHERE order_id = OLD.id) > 0\<close>.
\<close>

definition prevent_order_deletion :: "'p db \<Rightarrow> 'p order_row \<Rightarrow> bool" where
  "prevent_order_deletion d old =
     (length (filter (\<lambda>i. oi_order_id i = o_id old) (order_items d)) > 0)"

text \<open>
  \<open>DELETE FROM orders [WHERE cond]\<close>. The trigger runs \<open>BEFORE DELETE\<close> for each row the
  statement is about to delete; \<open>RAISE(ABORT, ..)\<close> ends the statement, undoes what the
  statement has done so far and surfaces as \<open>sqlite3.IntegrityError\<close>.
\<close>

definition delete_from_orders :: "('p order_row \<Rightarrow> bool) \<Rightarrow> 'p db \<Rightarrow> error + 'p db" where
  "delete_from_orders cond d =
     (if Prevent_order_deletion \<in> triggers d \<and>
         list_ex (\<lambda>old. cond old \<and> prevent_order_deletion d old) (orders d)
      then Inl (IntegrityError ''Cannot delete order with items'')
      else Inr (d\<lparr>orders := filter (\<lambda>old. \<not> cond old) (orders d)\<rparr>))"

text \<open>
  One statement on a connection in autocommit: a statement that raises leaves the
  database as it was.
\<close>

definition execute :: "('p db \<Rightarrow> error + 'p db) \<Rightarrow> 'p db \<Rightarrow> error option \<times> 'p db" where
  "execute stmt d = (case stmt d of Inl e \<Rightarrow> (Some e, d) | Inr d' \<Rightarrow> (None, d'))"

section \<open>\<open>generate_dummy_data\<close>\<close>

text \<open>
  \<open># Clear existing data\<close>: four \<open>DELETE\<close> statements without \<open>WHERE\<close>; the counters of
  \<open>sqlite_sequence\<close> stay.
\<close>

definition clear_existing_data :: "'p db \<Rightarrow> error + 'p db" where
  "clear_existing_data d =
     (case delete_from_orders (\<lambda>_. True) (d\<lparr>order_items := []\<rparr>) of
        Inl e \<Rightarrow> Inl e
      | Inr d1 \<Rightarrow> Inr (d1\<lparr>products := [], users := []\<rparr>))"

definition statuses :: "user_status list" where
  "statuses = [Active, Inactive, Suspended]"

definition categories :: "string list" where
  "categories = [''Electronics'', ''Clothing'', ''Books'', ''Home'', ''Sports'']"

text \<open>\<open># Generate users\<close>, the loop over \<open>range(num_users)\<close> from index \<open>i\<close> on.\<close>

fun generate_users ::
  "(string \<Rightarrow> string) \<Rightarrow> nat \<Rightarrow> nat \<Rightarrow> rng \<Rightarrow> 'p db \<Rightarrow> error + (rng \<times> 'p db)" where
  "generate_users H 0 i g d = Inr (g, d)"
| "generate_users H (Suc n) i g d =
     (case random_string 5 g of (s, g1) \<Rightarrow>
        (let username = ''user_'' @ str_nat i @ ''_'' @ s;
             email = username @ ''@example.com'';
             password_hash = hash_password H (''password'' @ str_nat i)
         in case choice statuses g1 of
              Inl e \<Rightarrow> Inl e
            | Inr (status, g2) \<Rightarrow>
                (case insert_user username email password_hash status d of
                   Inl e \<Rightarrow> Inl e
                 | Inr (rid, d') \<Rightarrow> generate_users H n (Suc i) g2 d')))"

text \<open>\<open>INSERT INTO products (name, category, price, stock) VALUES (?, ?, ?, ?)\<close>\<close>

definition insert_product :: "string \<Rightarrow> string \<Rightarrow> 'p \<Rightarrow> int \<Rightarrow> 'p db \<Rightarrow> 'p db" where
  "insert_product name category price stock d =
     (let rid = next_rowid (seq_products d) (map p_id (products d))
      in d\<lparr>products := products d @
               [\<lparr>p_id = rid, p_name = name, p_category = category, p_price = price,
                 p_stock = stock\<rparr>],
            seq_products := rid\<rparr>)"

text \<open>\<open># Generate products\<close>, the loop over \<open>range(num_products)\<close> from index \<open>i\<close> on.\<close>

fun generate_products ::
  "(nat \<Rightarrow> 'p) \<Rightarrow> nat \<Rightarrow> nat \<Rightarrow> rng \<Rightarrow> 'p db \<Rightarrow> error + (rng \<times> 'p db)" where
  "generate_products price_of 0 i g d = Inr (g, d)"
| "generate_products price_of (Suc n) i g d =
     (case random_string 4 g of (s, g1) \<Rightarrow>
        (let name = ''Product_'' @ str_nat i @ ''_'' @ s
         in case choice categories g1 of
              Inl e \<Rightarrow> Inl e
            | Inr (category, g2) \<Rightarrow>
                (case random_price price_of g2 of (price, g3) \<Rightarrow>
                   (case randint 0 500 g3 of (stock, g4) \<Rightarrow>
                      generate_products price_of n (Suc i) g4
                        (insert_product name category price stock d)))))"

text \<open>\<open>SELECT id FROM users WHERE status = 'active'\<close>\<close>

definition active_user_ids :: "'p db \<Rightarrow> int list" where
  "active_user_ids d = map u_id (filter (\<lambda>u. u_status u = Active) (users d))"

text \<open>\<open>UPDATE orders SET total_amount = ? WHERE id = ?\<close>\<close>

definition update_order_total :: "'p \<Rightarrow> int \<Rightarrow> 'p db \<Rightarrow> 'p db" where
  "update_order_total total_amount oid d =
     d\<lparr>orders :=
         map (\<lambda>r. if o_id r = oid then r\<lparr>o_total_amount := total_amount\<rparr> else r) (orders d)\<rparr>"

text \<open>
  \<open># Insert order items\<close>, the inner loop with \<open>n\<close> rounds to go. \<open>products\<close> is the list
  fetched before the first order; \<open>product[0]\<close> is the id, \<open>product[1]\<close> the price.
\<close>

fun generate_order_items ::
  "('p \<Rightarrow> int \<Rightarrow> 'p) \<Rightarrow> nat \<Rightarrow> (int \<times> 'p) list \<Rightarrow> int \<Rightarrow> 'p::plus \<Rightarrow> rng \<Rightarrow> 'p db
     \<Rightarrow> error + ('p \<times> rng \<times> 'p db)" where
  "generate_order_items mul 0 prods order_id total_amount g d = Inr (total_amount, g, d)"
| "generate_order_items mul (Suc n) prods order_id total_amount g d =
     (case choice prods g of
        Inl e \<Rightarrow> Inl e
      | Inr (product, g1) \<Rightarrow>
          (case randint 1 5 g1 of (qty, g2) \<Rightarrow>
             (let item_total = mul (snd product) qty
              in generate_order_items mul n prods order_id (total_amount + item_total) g2
                   (insert_order_item order_id (fst product) qty (snd product) d))))"

text \<open>
  One round of \<open># Generate orders\<close>: the order row with total 0, its items, then the
  \<open>UPDATE\<close> of the total. The draw for \<open>order_date\<close> is consumed although the column is
  left out.
\<close>

definition generate_order ::
  "('p \<Rightarrow> int \<Rightarrow> 'p) \<Rightarrow> int list \<Rightarrow> (int \<times> 'p) list \<Rightarrow> rng \<Rightarrow> 'p::{zero,plus} db
     \<Rightarrow> error + (rng \<times> 'p db)" where
  "generate_order mul user_ids prods g d =
     (case choice user_ids g of
        Inl e \<Rightarrow> Inl e
      | Inr (user_id, g1) \<Rightarrow>
          (case randint 0 365 g1 of (days, g2) \<Rightarrow>
             (case choice [Pending, Completed, Cancelled] g2 of
                Inl e \<Rightarrow> Inl e
              | Inr (status, g3) \<Rightarrow>
                  (case insert_order user_id 0 status d of (order_id, d1) \<Rightarrow>
                     (case randint 1 5 g3 of (k, g4) \<Rightarrow>
                        (case generate_order_items mul (nat k) prods order_id 0 g4 d1 of
                           Inl e \<Rightarrow> Inl e
                         | Inr (total_amount, g5, d2) \<Rightarrow>
                             Inr (g5, update_order_total total_amount order_id d2)))))))"

text \<open>\<open>for _ in range(200)\<close>, with \<open>n\<close> rounds to go.\<close>

fun generate_orders ::
  "('p \<Rightarrow> int \<Rightarrow> 'p) \<Rightarrow> nat \<Rightarrow> int list \<Rightarrow> (int \<times> 'p) list \<Rightarrow> rng \<Rightarrow> 'p::{zero,plus} db
     \<Rightarrow> error + (rng \<times> 'p db)" where
  "generate_orders mul 0 user_ids prods g d = Inr (g, d)"
| "generate_orders mul (Suc n) user_ids prods g d =
     (case generate_order mul user_ids prods g d of
        Inl e \<Rightarrow> Inl e
      | Inr (g', d') \<Rightarrow> generate_orders mul n user_ids prods g' d')"

text \<open>
  The state in which order generation begins: users and products inserted, nothing
  committed yet.
\<close>

definition generate_users_and_products ::
  "(string \<Rightarrow> string) \<Rightarrow> (nat \<Rightarrow> 'p) \<Rightarrow> nat \<Rightarrow> nat \<Rightarrow> rng \<Rightarrow> 'p db \<Rightarrow> error + (rng \<times> 'p db)" where
  "generate_users_and_products H price_of num_users num_products g d =
     (case generate_users H num_users 0 g d of
        Inl e \<Rightarrow> Inl e
      | Inr (g1, d1) \<Rightarrow> generate_products price_of num_products 0 g1 d1)"

text \<open>
  \<open>generate_dummy_data\<close>. The deletions are committed on their own; an exception in
  them leaves the database as it was. Everything after is committed at the end, and an
  exception before that leaves the cleared database: closing the connection drops the
  open transaction.
\<close>

definition generate_dummy_data ::
  "(string \<Rightarrow> string) \<Rightarrow> (nat \<Rightarrow> 'p) \<Rightarrow> ('p \<Rightarrow> int \<Rightarrow> 'p) \<Rightarrow> nat \<Rightarrow> nat \<Rightarrow> rng
     \<Rightarrow> 'p::{zero,plus} db \<Rightarrow> error option \<times> 'p db" where
  "generate_dummy_data H price_of mul num_users num_products g d =
     (case clear_existing_data d of
        Inl e \<Rightarrow> (Some e, d)
      | Inr d0 \<Rightarrow>
          (case generate_users_and_products H price_of num_users num_products g d0 of
             Inl e \<Rightarrow> (Some e, d0)
           | Inr (g1, d1) \<Rightarrow>
               (case generate_orders mul 200 (active_user_ids d1)
                       (map (\<lambda>p. (p_id p, p_price p)) (products d1)) g1 d1 of
                  Inl e \<Rightarrow> (Some e, d0)
                | Inr (g2, d2) \<Rightarrow> (None, d2))))"

section \<open>\<open>setup_database\<close> and \<open>modify_database_structure\<close>\<close>

text \<open>The database file after \<open>setup_database\<close> has run on a new file.\<close>

definition setup_database :: "'p db" where
  "setup_database =
     \<lparr>users = [], products = [], orders = [], order_items = [], audit_log = [],
      seq_users = 0, seq_products = 0, seq_orders = 0, seq_order_items = 0,
      seq_audit_log = 0, triggers = {},
      users_columns = [''id'', ''username'', ''email'', ''password_hash'', ''created_at'',
                       ''status''],
      views = {}\<rparr>"

text \<open>
  \<open>ALTER TABLE users ADD COLUMN ..\<close>: SQLite raises \<open>OperationalError\<close>
  (\<open>duplicate column name\<close>) when the table has the column.
\<close>

definition alter_table_users_add_column :: "string \<Rightarrow> 'p db \<Rightarrow> error + 'p db" where
  "alter_table_users_add_column c d =
     (if c \<in> set (users_columns d) then Inl (OperationalError (''duplicate column name: '' @ c))
      else Inr (d\<lparr>users_columns := users_columns d @ [c]\<rparr>))"

text \<open>\<open>CREATE VIEW IF NOT EXISTS ..\<close>\<close>

definition create_view_if_not_exists :: "string \<Rightarrow> 'p db \<Rightarrow> 'p db" where
  "create_view_if_not_exists v d = d\<lparr>views := insert v (views d)\<rparr>"

text \<open>
  \<open>modify_database_structure\<close>: \<open>except sqlite3.OperationalError\<close> swallows that error and
  no other. The temporary table \<open>session_data\<close> lives in the connection and is gone when
  the call returns, so it is no part of the state.
\<close>

definition modify_database_structure :: "'p db \<Rightarrow> error option \<times> 'p db" where
  "modify_database_structure d =
     (case alter_table_users_add_column ''last_login'' d of
        Inl (OperationalError m) \<Rightarrow> (None, create_view_if_not_exists ''active_user_orders'' d)
      | Inl e \<Rightarrow> (Some e, d)
      | Inr d1 \<Rightarrow> (None, create_view_if_not_exists ''active_user_orders'' d1))"

section \<open>The total of an order, recomputed from its line items\<close>

text \<open>
  The sum of price times quantity over the rows of \<open>order_items\<close> that belong to an order,
  in the order of the rows, with the arithmetic of the program (\<open>0\<close>, \<open>+\<close> and \<open>mul\<close>).
\<close>

definition add_line :: "('p \<Rightarrow> int \<Rightarrow> 'p) \<Rightarrow> 'p::plus \<Rightarrow> 'p order_item_row \<Rightarrow> 'p" where
  "add_line mul acc i = acc + mul (oi_price i) (oi_quantity i)"

definition line_items_total :: "('p \<Rightarrow> int \<Rightarrow> 'p) \<Rightarrow> 'p::{zero,plus} db \<Rightarrow> int \<Rightarrow> 'p" where
  "line_items_total mul d oid =
     foldl (add_line mul) 0 (filter (\<lambda>i. oi_order_id i = oid) (order_items d))"

section \<open>Example states\<close>

text \<open>Prices in cents, as integers, for the concrete runs.\<close>

definition mul_int :: "int \<Rightarrow> int \<Rightarrow> int" where
  "mul_int p q = p * q"

text \<open>
  A database with one active user and two products, as \<open>generate_dummy_data\<close> can leave
  it (a stock is any number from 0 to 500).
\<close>

definition example_db :: "int db" where
  "example_db =
     (setup_database :: int db)\<lparr>
        users := [\<lparr>u_id = 1, u_username = ''user_0_abcde'',
                   u_email = ''user_0_abcde@example.com'', u_password_hash = ''5e88'',
                   u_status = Active\<rparr>],
        products := [\<lparr>p_id = 1, p_name = ''Product_0_abcd'', p_category = ''Books'',
                      p_price = 250, p_stock = 10\<rparr>,
                     \<lparr>p_id = 2, p_name = ''Product_1_abcd'', p_category = ''Home'',
                      p_price = 100, p_stock = 3\<rparr>],
        seq_users := 1, seq_products := 2\<rparr>"

text \<open>
  The same database after \<open>create_triggers\<close> and one committed order of two units of
  product 1.
\<close>

definition example_db_with_order :: "int db" where
  "example_db_with_order =
     snd (process_order_transaction mul_int 1 [\<lparr>product_id = 1, quantity = 2\<rparr>]
            (create_triggers example_db))"

section \<open>Properties of the order transaction\<close>

lemma calculate_total_rejects:
  "it \<in> set items \<Longrightarrow>
   (case fetch_product ps (product_id it) of None \<Rightarrow> True | Some p \<Rightarrow> p_stock p < quantity it)
   \<Longrightarrow> \<exists>e. calculate_total mul ps items t = Inl e"
  by (induction items arbitrary: t) (auto split: option.splits)

text \<open>
  C1: when some line item names a product that does not exist, or one whose stock is
  below the requested quantity, \<open>process_order_transaction\<close> returns \<open>False\<close> and the
  database is the one the call started with: no order, no order item, no stock change
  and no audit entry.
\<close>

theorem process_order_transaction_rejects:
  assumes "it \<in> set items"
    and "case fetch_product (products d) (product_id it) of
           None \<Rightarrow> True | Some p \<Rightarrow> p_stock p < quantity it"
  shows "process_order_transaction mul user_id items d = (False, d)"
proof -
  obtain e where "calculate_total mul (products d) items 0 = Inl e"
    using calculate_total_rejects [OF assms] by blast
  then show ?thesis
    by (simp add: process_order_transaction_def transaction_body_def)
qed

text \<open>Quantity 5 of the product with stock 3: the call fails and the stock stays 3.\<close>

theorem process_order_transaction_rejects_witness:
  "process_order_transaction mul_int 1 [\<lparr>product_id = 2, quantity = 5\<rparr>] example_db
     = (False, example_db)
   \<and> map p_stock (products example_db) = [10, 3]"
  using process_order_transaction_rejects
          [of "\<lparr>product_id = 2, quantity = 5\<rparr>" "[\<lparr>product_id = 2, quantity = 5\<rparr>]"
              example_db mul_int 1]
  by (simp add: example_db_def fetch_product_def)

text \<open>
  C10: with an empty list of line items the call returns \<open>True\<close> and commits one order
  row with total 0 and status \<open>pending\<close> and one audit entry; \<open>products\<close> and
  \<open>order_items\<close> are as before.
\<close>

theorem process_order_transaction_empty:
  "process_order_transaction mul user_id [] d =
     (True,
      d\<lparr>orders := orders d @
           [\<lparr>o_id = next_rowid (seq_orders d) (map o_id (orders d)), o_user_id = user_id,
             o_total_amount = 0, o_status = Pending\<rparr>],
        seq_orders := next_rowid (seq_orders d) (map o_id (orders d)),
        audit_log := audit_log d @
           [\<lparr>al_id = next_rowid (seq_audit_log d) (map al_id (audit_log d)),
             al_table_name = ''orders'', al_action = ''CREATE'', al_user_id = user_id,
             al_details = Order_details (next_rowid (seq_orders d) (map o_id (orders d))) 0\<rparr>],
        seq_audit_log := next_rowid (seq_audit_log d) (map al_id (audit_log d))\<rparr>)"
  by (simp add: process_order_transaction_def transaction_body_def insert_order_def
        insert_audit_log_def Let_def)

lemmas transaction_simps =
  process_order_transaction_def transaction_body_def insert_order_def insert_audit_log_def
  insert_order_item_def update_stock_def update_product_stock_def fetch_product_def
  next_rowid_def create_triggers_def example_db_def setup_database_def mul_int_def Let_def

text \<open>
  C2: a two-line order of products that exist and have enough stock returns \<open>True\<close>,
  lowers each stock by the requested quantity and adds one order, two order items and one
  audit entry. With the trigger \<open>update_product_stock\<close> installed, as it is when
  \<open>run_demonstration\<close> places its order, the insert of each order item fires the trigger
  and the explicit \<open>UPDATE\<close> follows: stocks 10 and 3 with quantities 2 and 1 end at 6 and
  1, not at 8 and 2.
\<close>

theorem process_order_transaction_double_decrement:
  "map p_stock (products (create_triggers example_db)) = [10, 3]
   \<and> fst (process_order_transaction mul_int 1
            [\<lparr>product_id = 1, quantity = 2\<rparr>, \<lparr>product_id = 2, quantity = 1\<rparr>]
            (create_triggers example_db))
   \<and> map p_stock (products (snd (process_order_transaction mul_int 1
            [\<lparr>product_id = 1, quantity = 2\<rparr>, \<lparr>product_id = 2, quantity = 1\<rparr>]
            (create_triggers example_db)))) = [6, 1]"
  by (simp add: transaction_simps)

text \<open>
  Without the trigger, and for two different products, the call does what C2 says.
\<close>

lemma fetch_product_map:
  "(\<And>p. p_id (f p) = p_id p) \<Longrightarrow> fetch_product (map f ps) pid = map_option f (fetch_product ps pid)"
  by (induction ps) (auto simp: fetch_product_def)

lemma insert_order_item_no_trigger:
  "Update_product_stock \<notin> triggers d \<Longrightarrow>
   insert_order_item oid pid q pr d =
     d\<lparr>order_items := order_items d @
          [\<lparr>oi_id = next_rowid (seq_order_items d) (map oi_id (order_items d)),
            oi_order_id = oid, oi_product_id = pid, oi_quantity = q, oi_price = pr\<rparr>],
       seq_order_items := next_rowid (seq_order_items d) (map oi_id (order_items d))\<rparr>"
  by (simp add: insert_order_item_def Let_def)

lemma two_lines_without_trigger:
  fixes mul :: "'a::{zero,plus} \<Rightarrow> int \<Rightarrow> 'a" and uid :: int and d :: "'a db"
  assumes "Update_product_stock \<notin> triggers d"
    and "fetch_product (products d) a = Some pa" and "q1 \<le> p_stock pa"
    and "fetch_product (products d) b = Some pb" and "q2 \<le> p_stock pb"
    and "a \<noteq> b"
  defines "r \<equiv> process_order_transaction mul uid
                   [\<lparr>product_id = a, quantity = q1\<rparr>, \<lparr>product_id = b, quantity = q2\<rparr>] d"
  shows "fst r"
    and "products (snd r) =
           map (\<lambda>p. if p_id p = a then p\<lparr>p_stock := p_stock p - q1\<rparr>
                     else if p_id p = b then p\<lparr>p_stock := p_stock p - q2\<rparr> else p) (products d)"
    and "length (orders (snd r)) = length (orders d) + 1"
    and "length (order_items (snd r)) = length (order_items d) + 2"
    and "length (audit_log (snd r)) = length (audit_log d) + 1"
proof -
  let ?f = "\<lambda>p::'a product_row. if p_id p = a then p\<lparr>p_stock := p_stock p - q1\<rparr> else p"
  have fb: "fetch_product (map ?f (products d)) b = Some (?f pb)"
    using assms(4) by (subst fetch_product_map) auto
  have r: "r = (True, snd r)" and p: "products (snd r) = map (\<lambda>p. if p_id p = b then p\<lparr>p_stock := p_stock p - q2\<rparr> else p) (map ?f (products d))"
    and "length (orders (snd r)) = length (orders d) + 1"
    and "length (order_items (snd r)) = length (order_items d) + 2"
    and "length (audit_log (snd r)) = length (audit_log d) + 1"
    using assms(1-5) fb
    by (simp_all add: r_def process_order_transaction_def transaction_body_def insert_order_def
          insert_audit_log_def Let_def insert_order_item_no_trigger update_stock_def)
  then show "fst r" "length (orders (snd r)) = length (orders d) + 1"
    "length (order_items (snd r)) = length (order_items d) + 2"
    "length (audit_log (snd r)) = length (audit_log d) + 1" by (metis fst_conv)+
  show "products (snd r) =
           map (\<lambda>p. if p_id p = a then p\<lparr>p_stock := p_stock p - q1\<rparr>
                     else if p_id p = b then p\<lparr>p_stock := p_stock p - q2\<rparr> else p) (products d)"
    unfolding p using \<open>a \<noteq> b\<close> by (auto simp: o_def)
qed

text \<open>
  C3: no operation makes a stock negative. The trigger alone keeps to that (its \<open>WHERE\<close>
  clause asks for \<open>stock >= NEW.quantity\<close>), but \<open>process_order_transaction\<close> subtracts
  the quantity a second time without that guard: with the triggers installed, an order of
  2 units of the product with stock 3 passes the check, returns \<open>True\<close> and leaves the
  stock at -1.
\<close>

theorem process_order_transaction_negative_stock:
  "map p_stock (products (create_triggers example_db)) = [10, 3]
   \<and> fst (process_order_transaction mul_int 1 [\<lparr>product_id = 2, quantity = 2\<rparr>]
            (create_triggers example_db))
   \<and> map p_stock (products (snd (process_order_transaction mul_int 1
            [\<lparr>product_id = 2, quantity = 2\<rparr>] (create_triggers example_db)))) = [10, - 1]"
  by (simp add: transaction_simps)

text \<open>
  The same happens without any trigger when two lines name one product: each line is
  checked against the stock of the call's start.
\<close>

lemma process_order_transaction_duplicate_lines:
  "fst (process_order_transaction mul_int 1
          [\<lparr>product_id = 2, quantity = 2\<rparr>, \<lparr>product_id = 2, quantity = 2\<rparr>] example_db)
   \<and> map p_stock (products (snd (process_order_transaction mul_int 1
          [\<lparr>product_id = 2, quantity = 2\<rparr>, \<lparr>product_id = 2, quantity = 2\<rparr>] example_db)))
       = [10, - 1]"
  by (simp add: transaction_simps)

text \<open>The trigger on its own never takes a stock below zero.\<close>

lemma update_product_stock_nonneg:
  "\<forall>p \<in> set (products d). 0 \<le> p_stock p \<Longrightarrow>
   \<forall>p \<in> set (products (update_product_stock new d)). 0 \<le> p_stock p"
  by (auto simp: update_product_stock_def)

section \<open>Properties of the triggers and of \<open>modify_database_structure\<close>\<close>

text \<open>
  C7: with the trigger \<open>prevent_order_deletion\<close> installed, a \<open>DELETE\<close> on \<open>orders\<close> that
  reaches an order with order items is aborted; the database, and with it the order and
  its items, is as before.
\<close>

theorem delete_order_with_items_rejected:
  assumes "Prevent_order_deletion \<in> triggers d"
    and "old \<in> set (orders d)" and "cond old"
    and "it \<in> set (order_items d)" and "oi_order_id it = o_id old"
  shows "execute (delete_from_orders cond) d
           = (Some (IntegrityError ''Cannot delete order with items''), d)"
proof -
  have "filter (\<lambda>i. oi_order_id i = o_id old) (order_items d) \<noteq> []"
    using assms(4,5) by (auto simp: filter_empty_conv)
  then have "prevent_order_deletion d old"
    by (simp add: prevent_order_deletion_def)
  with assms(1-3) show ?thesis
    by (auto simp: execute_def delete_from_orders_def list_ex_iff)
qed

lemma example_db_with_order_orders:
    "orders example_db_with_order
       = [\<lparr>o_id = 1, o_user_id = 1, o_total_amount = 500, o_status = Pending\<rparr>]"
  and example_db_with_order_items:
    "order_items example_db_with_order
       = [\<lparr>oi_id = 1, oi_order_id = 1, oi_product_id = 1, oi_quantity = 2, oi_price = 250\<rparr>]"
  and example_db_with_order_triggers:
    "Prevent_order_deletion \<in> triggers example_db_with_order"
  by (simp_all add: example_db_with_order_def transaction_simps)

text \<open>The committed order of the example cannot be deleted.\<close>

theorem delete_order_with_items_rejected_witness:
  "orders example_db_with_order
     = [\<lparr>o_id = 1, o_user_id = 1, o_total_amount = 500, o_status = Pending\<rparr>]
   \<and> order_items example_db_with_order
     = [\<lparr>oi_id = 1, oi_order_id = 1, oi_product_id = 1, oi_quantity = 2, oi_price = 250\<rparr>]
   \<and> execute (delete_from_orders (\<lambda>old. o_id old = 1)) example_db_with_order
     = (Some (IntegrityError ''Cannot delete order with items''), example_db_with_order)"
  using delete_order_with_items_rejected
          [of example_db_with_order "\<lparr>o_id = 1, o_user_id = 1, o_total_amount = 500, o_status = Pending\<rparr>"
              "\<lambda>old. o_id old = 1"
              "\<lparr>oi_id = 1, oi_order_id = 1, oi_product_id = 1, oi_quantity = 2, oi_price = 250\<rparr>"]
  by (simp add: example_db_with_order_orders example_db_with_order_items
        example_db_with_order_triggers)

text \<open>
  C8: when \<open>users\<close> already has the column \<open>last_login\<close>, the \<open>OperationalError\<close> of
  \<open>ALTER TABLE\<close> is caught: \<open>modify_database_structure\<close> raises nothing and leaves the
  columns as they are (only the view is created if it is missing). No call ever raises,
  and a second call changes nothing.
\<close>

theorem modify_database_structure_conflict:
  "(''last_login'' \<in> set (users_columns d) \<longrightarrow>
      modify_database_structure d
        = (None, d\<lparr>views := insert ''active_user_orders'' (views d)\<rparr>))
   \<and> fst (modify_database_structure d) = None
   \<and> modify_database_structure (snd (modify_database_structure d))
        = (None, snd (modify_database_structure d))"
  by (auto simp: modify_database_structure_def alter_table_users_add_column_def
        create_view_if_not_exists_def)

text \<open>The second call on a new database meets the existing column.\<close>

theorem modify_database_structure_conflict_witness:
  "''last_login'' \<in> set (users_columns (snd (modify_database_structure (setup_database :: int db))))
   \<and> modify_database_structure (snd (modify_database_structure (setup_database :: int db)))
       = (None, snd (modify_database_structure (setup_database :: int db)))"
  using modify_database_structure_conflict [of "setup_database :: int db"]
  by (simp add: modify_database_structure_def alter_table_users_add_column_def
        create_view_if_not_exists_def setup_database_def)


end
